theory Spec2Isabelle
  imports Main
begin

section \<open>Errors\<close>

text \<open>
  Go error values that the store produces or passes on. \<open>MySQLError\<close> is the driver's
  \<open>*mysql.MySQLError\<close> with its \<open>Number\<close> and \<open>Message\<close>; \<open>ErrNoRows\<close> is
  \<open>sql.ErrNoRows\<close>; \<open>ErrNoCookie\<close> is \<open>http.ErrNoCookie\<close>; \<open>ErrorString\<close> is a value
  made by \<open>errors.New\<close>; \<open>OtherError\<close> stands for every other error value of a
  collaborator (driver, connection, cookie codec).
\<close>

datatype error =
    MySQLError nat string
  | ErrNoRows
  | ErrNoCookie
  | ErrorString string
  | OtherError string

section \<open>Decimal text\<close>

text \<open>
  \<open>fmt.Sprintf("%d", n)\<close> renders an integer in decimal, with a leading minus sign for a
  negative one.
\<close>

definition digit_char :: "nat \<Rightarrow> char" where
  "digit_char d = char_of (48 + d)"

fun show_nat :: "nat \<Rightarrow> string" where
  "show_nat n = (if n < 10 then [digit_char n] else show_nat (n div 10) @ [digit_char (n mod 10)])"

declare show_nat.simps [simp del]

definition Sprintf_d :: "int \<Rightarrow> string" where
  "Sprintf_d i = (if i < 0 then CHR ''-'' # show_nat (nat (- i)) else show_nat (nat i))"

text \<open>
  The server compares the integer column \<open>id\<close> with a text parameter as numbers. The
  conversion of the text is modelled on its integer prefix (an optional minus sign, then
  the leading digits; no digits give 0), which is exact on every text that
  \<open>Sprintf_d\<close> produces.
\<close>

definition is_digit :: "char \<Rightarrow> bool" where
  "is_digit c = (48 \<le> (of_char c :: nat) \<and> (of_char c :: nat) \<le> 57)"

definition digit_val :: "char \<Rightarrow> nat" where
  "digit_val c = of_char c - 48"

definition nat_of_digits :: "string \<Rightarrow> nat" where
  "nat_of_digits s = foldl (\<lambda>a c. 10 * a + digit_val c) 0 s"

definition sql_number :: "string \<Rightarrow> int" where
  "sql_number s =
     (case s of
        [] \<Rightarrow> 0
      | c # t \<Rightarrow>
          if c = CHR ''-'' then - int (nat_of_digits (takeWhile is_digit t))
          else int (nat_of_digits (takeWhile is_digit s)))"

section \<open>The session table and the statements of the store\<close>

text \<open>
  One row of the table that \<open>cTableQ\<close> creates:
  \<^verbatim>\<open>id INT NOT NULL AUTO_INCREMENT, session_data LONGBLOB,
  created_on TIMESTAMP DEFAULT NOW(),
  modified_on TIMESTAMP DEFAULT NOW() ON UPDATE CURRENT_TIMESTAMP,
  expires_on TIMESTAMP DEFAULT NOW(), PRIMARY KEY(id)\<close>.
  Timestamps are whole seconds. The blob column holds what the store's own statements
  write, a text; the column \<open>id\<close> is the field \<open>row_id\<close>.
\<close>

record row =
  row_id :: int
  session_data :: string
  created_on :: int
  modified_on :: int
  expires_on :: int

record sql_table =
  rows :: "row list"
  auto_increment :: int

datatype val = Null | IntV int | StrV string | TimeV int

datatype column = Col_id | Col_session_data | Col_created_on | Col_modified_on | Col_expires_on

datatype expr =
    Col column
  | Param nat
  | NOW
  | NULL
  | LT expr expr
  | EQ expr expr
  | ADDDATE expr int

text \<open>
  The five statement shapes of the source, with the table name left out (the model holds
  the one table of the store):
  \<^item> \<open>CREATE_TABLE_IF_NOT_EXISTS\<close> is \<open>cTableQ\<close>;
  \<^item> \<open>INSERT a b c\<close> is \<open>INSERT INTO t (id, session_data, expires_on) VALUES (a, b, c)\<close>;
  \<^item> \<open>DELETE w\<close> is \<open>DELETE FROM t WHERE w\<close>;
  \<^item> \<open>UPDATE a w\<close> is \<open>UPDATE t SET session_data = a WHERE w\<close>;
  \<^item> \<open>SELECT es w\<close> is \<open>SELECT es FROM t WHERE w\<close>.
\<close>

datatype query =
    CREATE_TABLE_IF_NOT_EXISTS
  | INSERT expr expr expr
  | DELETE expr
  | UPDATE expr expr
  | SELECT "expr list" expr

fun col_val :: "column \<Rightarrow> row \<Rightarrow> val" where
  "col_val Col_id r = IntV (row_id r)"
| "col_val Col_session_data r = StrV (session_data r)"
| "col_val Col_created_on r = TimeV (created_on r)"
| "col_val Col_modified_on r = TimeV (modified_on r)"
| "col_val Col_expires_on r = TimeV (expires_on r)"

definition truth :: "bool \<Rightarrow> val" where
  "truth b = IntV (if b then 1 else 0)"

text \<open>
  Comparisons give 1, 0 or NULL. The modelled operand pairs are the ones the store's
  statements compare: two integers, an integer with a text (as numbers), two
  timestamps. Every other pair is outside the fragment and gives NULL.
\<close>

fun sql_eq :: "val \<Rightarrow> val \<Rightarrow> val" where
  "sql_eq (IntV a) (IntV b) = truth (a = b)"
| "sql_eq (IntV a) (StrV s) = truth (a = sql_number s)"
| "sql_eq (StrV s) (IntV b) = truth (sql_number s = b)"
| "sql_eq (TimeV a) (TimeV b) = truth (a = b)"
| "sql_eq _ _ = Null"

fun sql_lt :: "val \<Rightarrow> val \<Rightarrow> val" where
  "sql_lt (IntV a) (IntV b) = truth (a < b)"
| "sql_lt (IntV a) (StrV s) = truth (a < sql_number s)"
| "sql_lt (StrV s) (IntV b) = truth (sql_number s < b)"
| "sql_lt (TimeV a) (TimeV b) = truth (a < b)"
| "sql_lt _ _ = Null"

fun eval :: "int \<Rightarrow> val list \<Rightarrow> row \<Rightarrow> expr \<Rightarrow> val" where
  "eval t ps r (Col c) = col_val c r"
| "eval t ps r (Param i) = (if i < length ps then ps ! i else Null)"
| "eval t ps r NOW = TimeV t"
| "eval t ps r NULL = Null"
| "eval t ps r (LT a b) = sql_lt (eval t ps r a) (eval t ps r b)"
| "eval t ps r (EQ a b) = sql_eq (eval t ps r a) (eval t ps r b)"
| "eval t ps r (ADDDATE a n) = (case eval t ps r a of TimeV x \<Rightarrow> TimeV (x + n) | _ \<Rightarrow> Null)"

text \<open>A \<open>WHERE\<close> condition selects a row when it is a non-zero number; NULL selects nothing.\<close>

definition is_true :: "val \<Rightarrow> bool" where
  "is_true v = (case v of IntV n \<Rightarrow> n \<noteq> 0 | _ \<Rightarrow> False)"

record result =
  lastInsertId :: int
  rowsAffected :: nat
  resultRows :: "val list list"

definition unsupported :: error where
  "unsupported = OtherError ''statement outside the modelled fragment''"

definition default_row :: "int \<Rightarrow> int \<Rightarrow> row" where
  "default_row t n = \<lparr>row_id = n, session_data = [], created_on = t, modified_on = t, expires_on = t\<rparr>"

text \<open>
  \<open>ON UPDATE CURRENT_TIMESTAMP\<close>: the server sets \<open>modified_on\<close> when the update changes
  the row, and leaves a row alone whose new value equals the old one.
\<close>

definition update_row :: "int \<Rightarrow> val list \<Rightarrow> expr \<Rightarrow> expr \<Rightarrow> row \<Rightarrow> row option" where
  "update_row t ps a w r =
     (if is_true (eval t ps r w) then
        (case eval t ps r a of
           StrV s \<Rightarrow>
             Some (if s = session_data r then r else r\<lparr>session_data := s, modified_on := t\<rparr>)
         | _ \<Rightarrow> None)
      else Some r)"

fun those_rows :: "row option list \<Rightarrow> row list option" where
  "those_rows [] = Some []"
| "those_rows (None # xs) = None"
| "those_rows (Some r # xs) = (case those_rows xs of None \<Rightarrow> None | Some rs \<Rightarrow> Some (r # rs))"

text \<open>
  One statement run by the server at time \<open>t\<close> with the parameters \<open>ps\<close>. A failed
  statement leaves the table as it was. An insert with \<open>NULL\<close> for \<open>id\<close> takes the next
  auto-increment value; the primary key refuses a second row with the same \<open>id\<close> (error
  1062), and the \<open>INT\<close> column a value above 2147483647 (error 1467).
\<close>

fun run_query :: "int \<Rightarrow> query \<Rightarrow> val list \<Rightarrow> sql_table \<Rightarrow> (error + result) \<times> sql_table" where
  "run_query t CREATE_TABLE_IF_NOT_EXISTS ps tb =
     (Inr \<lparr>lastInsertId = 0, rowsAffected = 0, resultRows = []\<rparr>, tb)"
| "run_query t (INSERT a b c) ps tb =
     (let d = default_row t (auto_increment tb) in
      case (eval t ps d a, eval t ps d b, eval t ps d c) of
        (Null, StrV s, TimeV x) \<Rightarrow>
          if auto_increment tb > 2147483647 then
            (Inl (MySQLError 1467 ''Failed to read auto-increment value from storage engine''), tb)
          else if auto_increment tb \<in> set (map row_id (rows tb)) then
            (Inl (MySQLError 1062 ''Duplicate entry for key PRIMARY''), tb)
          else
            (Inr \<lparr>lastInsertId = auto_increment tb, rowsAffected = 1, resultRows = []\<rparr>,
             tb\<lparr>rows := rows tb @ [d\<lparr>session_data := s, expires_on := x\<rparr>],
                auto_increment := auto_increment tb + 1\<rparr>)
      | _ \<Rightarrow> (Inl unsupported, tb))"
| "run_query t (DELETE w) ps tb =
     (let kept = filter (\<lambda>r. \<not> is_true (eval t ps r w)) (rows tb) in
      (Inr \<lparr>lastInsertId = 0, rowsAffected = length (rows tb) - length kept, resultRows = []\<rparr>,
       tb\<lparr>rows := kept\<rparr>))"
| "run_query t (UPDATE a w) ps tb =
     (case those_rows (map (update_row t ps a w) (rows tb)) of
        None \<Rightarrow> (Inl unsupported, tb)
      | Some rs \<Rightarrow>
          (Inr \<lparr>lastInsertId = 0,
                rowsAffected = length (filter (\<lambda>(r, r'). r \<noteq> r') (zip (rows tb) rs)),
                resultRows = []\<rparr>,
           tb\<lparr>rows := rs\<rparr>))"
| "run_query t (SELECT es w) ps tb =
     (Inr \<lparr>lastInsertId = 0, rowsAffected = 0,
           resultRows = map (\<lambda>r. map (eval t ps r) es)
                            (filter (\<lambda>r. is_true (eval t ps r w)) (rows tb))\<rparr>,
      tb)"

section \<open>The driver: executing, querying, scanning, preparing\<close>

text \<open>
  What the environment decides at one call to the database: the server's clock (the value
  of \<open>NOW()\<close> in the statement), whether the driver or the connection fails the
  statement, and whether \<open>LastInsertId\<close> fails.
\<close>

record env =
  now :: int
  fault :: "error option"
  lastInsertId_fault :: "error option"

definition Exec :: "env \<Rightarrow> query \<Rightarrow> val list \<Rightarrow> sql_table \<Rightarrow> (error + result) \<times> sql_table" where
  "Exec e q ps tb = (case fault e of Some err \<Rightarrow> (Inl err, tb) | None \<Rightarrow> run_query (now e) q ps tb)"

definition LastInsertId :: "env \<Rightarrow> result \<Rightarrow> error + int" where
  "LastInsertId e res = (case lastInsertId_fault e of Some err \<Rightarrow> Inl err | None \<Rightarrow> Inr (lastInsertId res))"

text \<open>\<open>QueryRow\<close> keeps the first row of the answer; its error comes out of \<open>Scan\<close>.\<close>

definition QueryRow :: "env \<Rightarrow> query \<Rightarrow> val list \<Rightarrow> sql_table \<Rightarrow> (error + val list) \<times> sql_table" where
  "QueryRow e q ps tb =
     (case Exec e q ps tb of
        (Inl err, tb') \<Rightarrow> (Inl err, tb')
      | (Inr res, tb') \<Rightarrow>
          (case resultRows res of
             [] \<Rightarrow> (Inl ErrNoRows, tb')
           | r # _ \<Rightarrow> (Inr r, tb')))"

fun scan_string :: "val \<Rightarrow> error + string" where
  "scan_string (StrV s) = Inr s"
| "scan_string (IntV n) = Inr (Sprintf_d n)"
| "scan_string Null = Inl (OtherError ''sql: Scan error: converting NULL to string is unsupported'')"
| "scan_string (TimeV t) = Inl unsupported"

fun scan_bool :: "val \<Rightarrow> error + bool" where
  "scan_bool (IntV n) =
     (if n = 1 then Inr True else if n = 0 then Inr False
      else Inl (OtherError ''sql: Scan error: converting to bool''))"
| "scan_bool _ = Inl (OtherError ''sql: Scan error: converting to bool'')"

record sessionRow =
  sessionRow_id :: string
  sessionRow_data :: string

text \<open>\<open>row.Scan(&sess.id, &sess.data, &expired)\<close>\<close>

definition Scan :: "error + val list \<Rightarrow> error + sessionRow \<times> bool" where
  "Scan r =
     (case r of
        Inl err \<Rightarrow> Inl err
      | Inr vs \<Rightarrow>
          (case vs of
             [a, b, c] \<Rightarrow>
               (case scan_string a of
                  Inl err \<Rightarrow> Inl err
                | Inr i \<Rightarrow>
                    (case scan_string b of
                       Inl err \<Rightarrow> Inl err
                     | Inr d \<Rightarrow>
                         (case scan_bool c of
                            Inl err \<Rightarrow> Inl err
                          | Inr x \<Rightarrow> Inr (\<lparr>sessionRow_id = i, sessionRow_data = d\<rparr>, x))))
           | _ \<Rightarrow> Inl (OtherError ''sql: expected 3 destination arguments in Scan'')))"

text \<open>
  The connection at initialisation: what \<open>db.Exec\<close> and \<open>db.Prepare\<close> answer for each
  statement. A prepared statement is the statement itself.
\<close>

record conn =
  exec_fault :: "query \<Rightarrow> error option"
  prepare_fault :: "query \<Rightarrow> error option"

definition Prepare :: "conn \<Rightarrow> query \<Rightarrow> error + query" where
  "Prepare c q = (case prepare_fault c q of Some err \<Rightarrow> Inl err | None \<Rightarrow> Inr q)"

section \<open>Collaborators: cookies, sessions, the cookie codec\<close>

record options =
  Path :: string
  Domain_name :: string
  MaxAge :: int
  Secure :: bool
  HttpOnly :: bool

record cookie =
  Cookie_Name :: string
  Cookie_Value :: string
  Cookie_Path :: string
  Cookie_Domain :: string
  Cookie_MaxAge :: int
  Cookie_Secure :: bool
  Cookie_HttpOnly :: bool

text \<open>
  A request is the list of its cookies, name and value, in header order; a response is
  the list of the cookies handed to \<open>http.SetCookie\<close>, in order.
\<close>

type_synonym request = "(string \<times> string) list"
type_synonym response = "cookie list"

definition Cookie :: "request \<Rightarrow> string \<Rightarrow> error + string" where
  "Cookie r name =
     (if name = [] then Inl ErrNoCookie
      else case find (\<lambda>c. fst c = name) r of
             None \<Rightarrow> Inl ErrNoCookie
           | Some c \<Rightarrow> Inr (snd c))"

definition SetCookie :: "response \<Rightarrow> cookie \<Rightarrow> response" where
  "SetCookie w c = w @ [c]"

text \<open>
  \<open>sessions.NewCookie(name, value, options)\<close> reads the fields of \<open>*options\<close>: a nil
  pointer panics, which is \<open>None\<close> here.
\<close>

definition NewCookie :: "string \<Rightarrow> string \<Rightarrow> options option \<Rightarrow> cookie option" where
  "NewCookie name v opts =
     (case opts of
        None \<Rightarrow> None
      | Some o' \<Rightarrow>
          Some \<lparr>Cookie_Name = name, Cookie_Value = v, Cookie_Path = Path o',
                Cookie_Domain = Domain_name o', Cookie_MaxAge = MaxAge o',
                Cookie_Secure = Secure o', Cookie_HttpOnly = HttpOnly o'\<rparr>)"

text \<open>
  A session of \<open>gorilla/sessions\<close>: \<open>Values\<close> is a Go map, kept as an association list
  (one entry per key); \<open>Options\<close> is a pointer, nil in a session that
  \<open>sessions.NewSession\<close> has just made.
\<close>

record ('k, 'v) session =
  ID :: string
  Values :: "('k \<times> 'v) list"
  Options :: "options option"
  IsNew :: bool
  Name :: string

definition NewSession :: "string \<Rightarrow> ('k, 'v) session" where
  "NewSession name = \<lparr>ID = [], Values = [], Options = None, IsNew = False, Name = name\<rparr>"

text \<open>
  The cookie codec of \<open>gorilla/securecookie\<close> is a parameter of the model: the codecs
  built from the key pairs, and \<open>EncodeMulti\<close> and \<open>DecodeMulti\<close> at the two types the
  store uses them at (the identifier, a string; the values, a map). Both read the clock
  (a token carries its timestamp and is refused when too old), so they take the time of
  the call. A failed decode leaves its destination as it was.
\<close>

record ('c, 'k, 'v) securecookie =
  CodecsFromPairs :: "string list \<Rightarrow> 'c"
  EncodeMulti_ID :: "int \<Rightarrow> string \<Rightarrow> string \<Rightarrow> 'c \<Rightarrow> error + string"
  DecodeMulti_ID :: "int \<Rightarrow> string \<Rightarrow> string \<Rightarrow> 'c \<Rightarrow> error + string"
  EncodeMulti_Values :: "int \<Rightarrow> string \<Rightarrow> ('k \<times> 'v) list \<Rightarrow> 'c \<Rightarrow> error + string"
  DecodeMulti_Values :: "int \<Rightarrow> string \<Rightarrow> string \<Rightarrow> 'c \<Rightarrow> error + ('k \<times> 'v) list"

section \<open>The store\<close>

record 'c MySQLStore =
  stmtInsert :: query
  stmtDelete :: query
  stmtUpdate :: query
  stmtSelect :: query
  stmtCleanup :: query
  Codecs :: 'c
  StoreOptions :: options
  table_name :: string

definition cTableQ :: query where
  "cTableQ = CREATE_TABLE_IF_NOT_EXISTS"

definition insQ :: "int \<Rightarrow> query" where
  "insQ maxAge = INSERT NULL (Param 0) (ADDDATE NOW maxAge)"

definition delQ :: query where
  "delQ = DELETE (EQ (Col Col_id) (Param 0))"

definition updQ :: query where
  "updQ = UPDATE (Param 0) (EQ (Col Col_id) (Param 1))"

definition selQ :: query where
  "selQ = SELECT [Col Col_id, Col Col_session_data, LT (Col Col_expires_on) NOW]
                 (EQ (Col Col_id) (Param 0))"

definition cleanQ :: query where
  "cleanQ = DELETE (LT (Col Col_expires_on) NOW)"

text \<open>\<open>strings.Trim(s, "`")\<close> drops the backquotes (character 96) at both ends.\<close>

definition Trim_backquote :: "string \<Rightarrow> string" where
  "Trim_backquote s =
     rev (dropWhile (\<lambda>c. c = CHR 0x60) (rev (dropWhile (\<lambda>c. c = CHR 0x60) s)))"

text \<open>
  Only error 1142 (permission denied for the create command) of the driver's own error
  type lets initialisation go on after a failed \<open>CREATE TABLE\<close>.
\<close>

definition create_fatal :: "error option \<Rightarrow> error option" where
  "create_fatal r =
     (case r of
        None \<Rightarrow> None
      | Some err \<Rightarrow>
          (case err of
             MySQLError n msg \<Rightarrow> if n = 1142 then None else Some err
           | _ \<Rightarrow> Some err))"

definition NewMySQLStoreFromConnection ::
  "('c, 'k, 'v) securecookie \<Rightarrow> conn \<Rightarrow> string \<Rightarrow> string \<Rightarrow> int \<Rightarrow> string list
     \<Rightarrow> 'c MySQLStore option \<times> error option" where
  "NewMySQLStoreFromConnection lib db tableName path maxAge keyPairs =
     (let tableName = [CHR 0x60] @ Trim_backquote tableName @ [CHR 0x60] in
      case create_fatal (exec_fault db cTableQ) of
        Some err \<Rightarrow> (None, Some err)
      | None \<Rightarrow>
     (case Prepare db (insQ maxAge) of
        Inl stmtErr \<Rightarrow> (None, Some stmtErr)
      | Inr sInsert \<Rightarrow>
     (case Prepare db delQ of
        Inl stmtErr \<Rightarrow> (None, Some stmtErr)
      | Inr sDelete \<Rightarrow>
     (case Prepare db updQ of
        Inl stmtErr \<Rightarrow> (None, Some stmtErr)
      | Inr sUpdate \<Rightarrow>
     (case Prepare db selQ of
        Inl stmtErr \<Rightarrow> (None, Some stmtErr)
      | Inr sSelect \<Rightarrow>
     (case Prepare db cleanQ of
        Inl stmtErr \<Rightarrow> (None, Some stmtErr)
      | Inr sCleanup \<Rightarrow>
          (Some \<lparr>stmtInsert = sInsert, stmtDelete = sDelete, stmtUpdate = sUpdate,
                 stmtSelect = sSelect, stmtCleanup = sCleanup,
                 Codecs = CodecsFromPairs lib keyPairs,
                 StoreOptions = \<lparr>Path = path, Domain_name = [], MaxAge = maxAge,
                                 Secure = False, HttpOnly = False\<rparr>,
                 table_name = tableName\<rparr>,
           None)))))))"

text \<open>
  A call of the store returns, or panics on a nil \<open>Options\<close> pointer. What it has done
  to the response, the session and the table by then stays done.
\<close>

datatype outcome = Returns "error option" | Panics

definition load ::
  "('c, 'k, 'v) securecookie \<Rightarrow> 'c MySQLStore \<Rightarrow> env \<Rightarrow> ('k, 'v) session \<Rightarrow> sql_table
     \<Rightarrow> ('k, 'v) session \<times> sql_table \<times> error option" where
  "load lib m e session tb =
     (case QueryRow e (stmtSelect m) [StrV (ID session)] tb of
        (row, tb') \<Rightarrow>
          (case Scan row of
             Inl scanErr \<Rightarrow> (session, tb', Some scanErr)
           | Inr (sess, expired) \<Rightarrow>
               if expired then (session, tb', Some (ErrorString ''Session expired''))
               else
                 (case DecodeMulti_Values lib (now e) (Name session) (sessionRow_data sess) (Codecs m) of
                    Inl err \<Rightarrow> (session, tb', Some err)
                  | Inr vs \<Rightarrow> (session\<lparr>Values := vs\<rparr>, tb', None))))"

definition New ::
  "('c, 'k, 'v) securecookie \<Rightarrow> 'c MySQLStore \<Rightarrow> env \<Rightarrow> request \<Rightarrow> string \<Rightarrow> sql_table
     \<Rightarrow> ('k, 'v) session \<times> sql_table \<times> error option" where
  "New lib m e r name tb =
     (let session = NewSession name;
          session = session\<lparr>Options := Some \<lparr>Path = Path (StoreOptions m),
                                               Domain_name = Domain_name (StoreOptions m),
                                               MaxAge = MaxAge (StoreOptions m),
                                               Secure = Secure (StoreOptions m),
                                               HttpOnly = HttpOnly (StoreOptions m)\<rparr>\<rparr>;
          session = session\<lparr>IsNew := True\<rparr>
      in case Cookie r name of
           Inl errCookie \<Rightarrow> (session, tb, None)
         | Inr cook \<Rightarrow>
             (case DecodeMulti_ID lib (now e) name cook (Codecs m) of
                Inl err \<Rightarrow> (session, tb, Some err)
              | Inr sid \<Rightarrow>
                  (case load lib m e (session\<lparr>ID := sid\<rparr>) tb of
                     (session', tb', None) \<Rightarrow> (session'\<lparr>IsNew := False\<rparr>, tb', None)
                   | (session', tb', Some err) \<Rightarrow> (session', tb', None))))"

definition insert_session ::
  "('c, 'k, 'v) securecookie \<Rightarrow> 'c MySQLStore \<Rightarrow> env \<Rightarrow> ('k, 'v) session \<Rightarrow> sql_table
     \<Rightarrow> ('k, 'v) session \<times> sql_table \<times> error option" where
  "insert_session lib m e session tb =
     (case EncodeMulti_Values lib (now e) (Name session) (Values session) (Codecs m) of
        Inl encErr \<Rightarrow> (session, tb, Some encErr)
      | Inr encoded \<Rightarrow>
          (case Exec e (stmtInsert m) [StrV encoded] tb of
             (Inl insErr, tb') \<Rightarrow> (session, tb', Some insErr)
           | (Inr res, tb') \<Rightarrow>
               (case LastInsertId e res of
                  Inl lInsErr \<Rightarrow> (session, tb', Some lInsErr)
                | Inr lastInserted \<Rightarrow> (session\<lparr>ID := Sprintf_d lastInserted\<rparr>, tb', None))))"

definition save ::
  "('c, 'k, 'v) securecookie \<Rightarrow> 'c MySQLStore \<Rightarrow> env \<Rightarrow> ('k, 'v) session \<Rightarrow> sql_table
     \<Rightarrow> ('k, 'v) session \<times> sql_table \<times> error option" where
  "save lib m e session tb =
     (if IsNew session = True then insert_session lib m e session tb
      else
        (case EncodeMulti_Values lib (now e) (Name session) (Values session) (Codecs m) of
           Inl encErr \<Rightarrow> (session, tb, Some encErr)
         | Inr encoded \<Rightarrow>
             (case Exec e (stmtUpdate m) [StrV encoded, StrV (ID session)] tb of
                (Inl updErr, tb') \<Rightarrow> (session, tb', Some updErr)
              | (Inr res, tb') \<Rightarrow> (session, tb', None))))"

definition Save ::
  "('c, 'k, 'v) securecookie \<Rightarrow> 'c MySQLStore \<Rightarrow> env \<Rightarrow> response \<Rightarrow> ('k, 'v) session \<Rightarrow> sql_table
     \<Rightarrow> response \<times> ('k, 'v) session \<times> sql_table \<times> outcome" where
  "Save lib m e w session tb =
     (case (if ID session = [] then insert_session lib m e session tb
            else save lib m e session tb) of
        (session', tb', Some err) \<Rightarrow> (w, session', tb', Returns (Some err))
      | (session', tb', None) \<Rightarrow>
          (case EncodeMulti_ID lib (now e) (Name session') (ID session') (Codecs m) of
             Inl err \<Rightarrow> (w, session', tb', Returns (Some err))
           | Inr encoded \<Rightarrow>
               (case NewCookie (Name session') encoded (Options session') of
                  None \<Rightarrow> (w, session', tb', Panics)
                | Some c \<Rightarrow> (SetCookie w c, session', tb', Returns None))))"

text \<open>
  \<open>for k := range session.Values { delete(session.Values, k) }\<close>: every key of the
  map is visited and deleted.
\<close>

definition delete_key :: "'k \<Rightarrow> ('k \<times> 'v) list \<Rightarrow> ('k \<times> 'v) list" where
  "delete_key k vs = filter (\<lambda>kv. fst kv \<noteq> k) vs"

definition clear_values :: "('k \<times> 'v) list \<Rightarrow> ('k \<times> 'v) list" where
  "clear_values vs = fold delete_key (map fst vs) vs"

definition Delete ::
  "'c MySQLStore \<Rightarrow> env \<Rightarrow> response \<Rightarrow> ('k, 'v) session \<Rightarrow> sql_table
     \<Rightarrow> response \<times> ('k, 'v) session \<times> sql_table \<times> outcome" where
  "Delete m e w session tb =
     (case Options session of
        None \<Rightarrow> (w, session, tb, Panics)
      | Some opts \<Rightarrow>
          (let options = opts\<lparr>MaxAge := - 1\<rparr>;
               w' = (case NewCookie (Name session) [] (Some options) of
                       None \<Rightarrow> w
                     | Some c \<Rightarrow> SetCookie w c);
               session' = session\<lparr>Values := clear_values (Values session)\<rparr>
           in case Exec e (stmtDelete m) [StrV (ID session)] tb of
                (Inl delErr, tb') \<Rightarrow> (w', session', tb', Returns (Some delErr))
              | (Inr res, tb') \<Rightarrow> (w', session', tb', Returns None)))"

section \<open>The background cleanup\<close>

text \<open>\<open>time.Minute * 5\<close>, in nanoseconds (a \<open>time.Duration\<close>).\<close>

definition defaultInterval :: int where
  "defaultInterval = 60000000000 * 5"

text \<open>
  The caller and the goroutine run side by side, so the cleanup is a transition system:
  a state holds where the caller stands in \<open>StopCleanup\<close> and where the goroutine stands
  in \<open>cleanup\<close>, and an event moves one of them, or both at a rendezvous on one of the
  two unbuffered channels.
  \<^item> caller: has not called \<open>StopCleanup\<close>; blocked at \<open>quit <- struct{}{}\<close>; blocked at
    \<open><-done\<close>; returned from \<open>StopCleanup\<close>;
  \<^item> goroutine: before \<open>time.NewTicker(interval)\<close>; at the \<open>select\<close>; at
    \<open>done <- struct{}{}\<close>; returning, before the deferred \<open>ticker.Stop()\<close>; exited;
    panicked (\<open>time.NewTicker\<close> panics on a non-positive interval).
\<close>

datatype caller_pc =
    Not_called
  | StopCleanup_at_send_quit
  | StopCleanup_at_recv_done
  | StopCleanup_returned

datatype cleanup_pc =
    cleanup_at_NewTicker
  | cleanup_at_select
  | cleanup_at_send_done
  | cleanup_at_deferred_Stop
  | cleanup_exited
  | cleanup_panicked

text \<open>
  \<open>ticker\<close> is the period of the running ticker, \<open>None\<close> when there is none;
  \<open>logged\<close> holds the calls of \<open>log.Printf\<close> (format and error); \<open>execs\<close> counts the
  executions of \<open>stmtCleanup\<close>.
\<close>

record sweeper =
  caller :: caller_pc
  task :: cleanup_pc
  interval :: int
  ticker :: "int option"
  swept :: sql_table
  logged :: "(string \<times> error) list"
  execs :: nat

datatype event =
    Ev_NewTicker
  | Ev_tick env
  | Ev_call_StopCleanup
  | Ev_quit
  | Ev_done
  | Ev_ticker_Stop

text \<open>
  \<open>Cleanup\<close> replaces a non-positive interval, makes the two channels and starts the
  goroutine; it returns at once.
\<close>

definition Cleanup :: "'c MySQLStore \<Rightarrow> int \<Rightarrow> sql_table \<Rightarrow> sweeper" where
  "Cleanup m interval0 tb =
     (let interval1 = (if interval0 \<le> 0 then defaultInterval else interval0) in
      \<lparr>caller = Not_called, task = cleanup_at_NewTicker, interval = interval1, ticker = None,
       swept = tb, logged = [], execs = 0\<rparr>)"

text \<open>
  One event. \<open>Ev_tick e\<close> is the \<open>select\<close> taking a tick of the ticker and running the
  cleanup statement in the environment \<open>e\<close>; \<open>Ev_quit\<close> is the rendezvous on \<open>quit\<close>
  (the caller sends, the \<open>select\<close> receives); \<open>Ev_done\<close> is the rendezvous on \<open>done\<close>,
  after which \<open>StopCleanup\<close> returns and the goroutine goes on to its deferred call.
  \<open>None\<close> means that the event cannot happen in the state.
\<close>

fun step :: "'c MySQLStore \<Rightarrow> event \<Rightarrow> sweeper \<Rightarrow> sweeper option" where
  "step m Ev_NewTicker s =
     (if task s = cleanup_at_NewTicker then
        (if interval s \<le> 0 then Some (s\<lparr>task := cleanup_panicked\<rparr>)
         else Some (s\<lparr>task := cleanup_at_select, ticker := Some (interval s)\<rparr>))
      else None)"
| "step m (Ev_tick e) s =
     (if task s = cleanup_at_select \<and> ticker s \<noteq> None then
        (case Exec e (stmtCleanup m) [] (swept s) of
           (Inl err, tb') \<Rightarrow>
             Some (s\<lparr>swept := tb',
                     logged := logged s @ [(''mysqlstore: unable to delete expired sessions: %v'', err)],
                     execs := Suc (execs s)\<rparr>)
         | (Inr res, tb') \<Rightarrow> Some (s\<lparr>swept := tb', execs := Suc (execs s)\<rparr>))
      else None)"
| "step m Ev_call_StopCleanup s =
     (if caller s = Not_called \<and> task s \<noteq> cleanup_panicked
      then Some (s\<lparr>caller := StopCleanup_at_send_quit\<rparr>) else None)"
| "step m Ev_quit s =
     (if caller s = StopCleanup_at_send_quit \<and> task s = cleanup_at_select
      then Some (s\<lparr>caller := StopCleanup_at_recv_done, task := cleanup_at_send_done\<rparr>) else None)"
| "step m Ev_done s =
     (if caller s = StopCleanup_at_recv_done \<and> task s = cleanup_at_send_done
      then Some (s\<lparr>caller := StopCleanup_returned, task := cleanup_at_deferred_Stop\<rparr>) else None)"
| "step m Ev_ticker_Stop s =
     (if task s = cleanup_at_deferred_Stop
      then Some (s\<lparr>task := cleanup_exited, ticker := None\<rparr>) else None)"

fun run :: "'c MySQLStore \<Rightarrow> event list \<Rightarrow> sweeper \<Rightarrow> sweeper option" where
  "run m [] s = Some s"
| "run m (ev # evs) s = (case step m ev s of None \<Rightarrow> None | Some s' \<Rightarrow> run m evs s')"

section \<open>Notions used in the statements and proofs\<close>

text \<open>
  The table creation passes when \<open>db.Exec(cTableQ)\<close> succeeds or fails with the
  driver's error number 1142.
\<close>

definition create_passes :: "conn \<Rightarrow> bool" where
  "create_passes db =
     (case exec_fault db cTableQ of
        None \<Rightarrow> True
      | Some (MySQLError n msg) \<Rightarrow> n = 1142
      | Some _ \<Rightarrow> False)"

text \<open>
  What \<open>updQ\<close> makes of one row at time \<open>t\<close>, for the blob \<open>blob\<close> and the
  identifier \<open>i\<close>.
\<close>

definition updated :: "int \<Rightarrow> string \<Rightarrow> string \<Rightarrow> row \<Rightarrow> row" where
  "updated t blob i r =
     (if row_id r = sql_number i then
        (if blob = session_data r then r else r\<lparr>session_data := blob, modified_on := t\<rparr>)
      else r)"

text \<open>
  The positions of the caller and of the goroutine go together: this holds in every
  state that the cleanup reaches from \<open>Cleanup\<close>.
\<close>

definition handshake_inv :: "sweeper \<Rightarrow> bool" where
  "handshake_inv s =
     (0 < interval s
      \<and> task s \<noteq> cleanup_panicked
      \<and> (task s = cleanup_at_select \<longrightarrow> ticker s \<noteq> None)
      \<and> (caller s = Not_called \<or> caller s = StopCleanup_at_send_quit
            \<longrightarrow> task s = cleanup_at_NewTicker \<or> task s = cleanup_at_select)
      \<and> (caller s = StopCleanup_at_recv_done \<longrightarrow> task s = cleanup_at_send_done)
      \<and> (caller s = StopCleanup_returned
            \<longrightarrow> task s = cleanup_at_deferred_Stop \<or> task s = cleanup_exited))"

definition past_done :: "sweeper \<Rightarrow> bool" where
  "past_done s = (task s = cleanup_at_deferred_Stop \<or> task s = cleanup_exited)"

section \<open>Instances for the worked cases\<close>

text \<open>
  A small codec to put in the place of the parameter: an identifier is signed by a
  prefix, a map of characters is written as the text of its keys and values in turn.
\<close>

fun unpairs :: "string \<Rightarrow> (char \<times> char) list option" where
  "unpairs [] = Some []"
| "unpairs [k] = None"
| "unpairs (k # v # s) = (case unpairs s of None \<Rightarrow> None | Some kvs \<Rightarrow> Some ((k, v) # kvs))"

definition example_codec :: "(string list, char, char) securecookie" where
  "example_codec =
     \<lparr>CodecsFromPairs = (\<lambda>ks. ks),
      EncodeMulti_ID = (\<lambda>t name v cs.
         if cs = [] then Inl (OtherError ''securecookie: no codecs provided'')
         else Inr (''id:'' @ v)),
      DecodeMulti_ID = (\<lambda>t name s cs.
         if cs \<noteq> [] \<and> take 3 s = ''id:'' then Inr (drop 3 s)
         else Inl (OtherError ''securecookie: the value is not valid'')),
      EncodeMulti_Values = (\<lambda>t name vs cs.
         if cs = [] then Inl (OtherError ''securecookie: no codecs provided'')
         else Inr (concat (map (\<lambda>kv. [fst kv, snd kv]) vs))),
      DecodeMulti_Values = (\<lambda>t name s cs.
         case unpairs s of
           None \<Rightarrow> Inl (OtherError ''securecookie: the value is not valid'')
         | Some kvs \<Rightarrow> Inr kvs)\<rparr>"

definition example_store :: "string list MySQLStore" where
  "example_store =
     \<lparr>stmtInsert = insQ 3600, stmtDelete = delQ, stmtUpdate = updQ, stmtSelect = selQ,
      stmtCleanup = cleanQ, Codecs = [''key''],
      StoreOptions = \<lparr>Path = ''/'', Domain_name = [], MaxAge = 3600, Secure = False, HttpOnly = False\<rparr>,
      table_name = CHR 0x60 # ''sessions'' @ [CHR 0x60]\<rparr>"

definition example_table :: sql_table where
  "example_table =
     \<lparr>rows = [\<lparr>row_id = 1, session_data = ''ua'', created_on = 100, modified_on = 100, expires_on = 200\<rparr>,
              \<lparr>row_id = 2, session_data = ''ub'', created_on = 150, modified_on = 150, expires_on = 1000\<rparr>],
      auto_increment = 3\<rparr>"

definition at :: "int \<Rightarrow> env" where
  "at t = \<lparr>now = t, fault = None, lastInsertId_fault = None\<rparr>"

definition failing_at :: "int \<Rightarrow> error \<Rightarrow> env" where
  "failing_at t err = \<lparr>now = t, fault = Some err, lastInsertId_fault = None\<rparr>"

definition ok_conn :: conn where
  "ok_conn = \<lparr>exec_fault = (\<lambda>q. None), prepare_fault = (\<lambda>q. None)\<rparr>"


text \<open>Connections that fail at one place of the initialisation.\<close>

definition denied_conn :: conn where
  "denied_conn =
     \<lparr>exec_fault = (\<lambda>q. if q = cTableQ then Some (MySQLError 1142 ''CREATE command denied'') else None),
      prepare_fault = (\<lambda>q. None)\<rparr>"

definition refused_conn :: conn where
  "refused_conn =
     \<lparr>exec_fault = (\<lambda>q. Some (MySQLError 1044 ''Access denied'')), prepare_fault = (\<lambda>q. None)\<rparr>"

definition failing_prepare :: "query \<Rightarrow> error \<Rightarrow> conn" where
  "failing_prepare q err =
     \<lparr>exec_fault = (\<lambda>q'. None), prepare_fault = (\<lambda>q'. if q' = q then Some err else None)\<rparr>"


definition updated_table :: sql_table where
  "updated_table =
     \<lparr>rows = [\<lparr>row_id = 1, session_data = ''ua'', created_on = 100, modified_on = 100, expires_on = 200\<rparr>,
              \<lparr>row_id = 2, session_data = ''xy'', created_on = 150, modified_on = 300, expires_on = 1000\<rparr>],
      auto_increment = 3\<rparr>"

text \<open>
  Two states of the cleanup: at the \<open>select\<close> with the ticker running, and just after
  the rendezvous on \<open>done\<close> that followed one tick at time 500.
\<close>

definition at_select :: sweeper where
  "at_select =
     \<lparr>caller = Not_called, task = cleanup_at_select, interval = 1, ticker = Some 1,
      swept = example_table, logged = [], execs = 0\<rparr>"

definition stopped_early :: sweeper where
  "stopped_early =
     \<lparr>caller = StopCleanup_returned, task = cleanup_at_deferred_Stop, interval = 1, ticker = Some 1,
      swept = \<lparr>rows = [\<lparr>row_id = 2, session_data = ''ub'', created_on = 150, modified_on = 150,
                         expires_on = 1000\<rparr>],
               auto_increment = 3\<rparr>,
      logged = [], execs = 1\<rparr>"

section \<open>Facts about the model\<close>

subsection \<open>Clearing the values\<close>

lemma fold_delete_key: "fold delete_key ks vs = filter (\<lambda>kv. fst kv \<notin> set ks) vs"
proof (induction ks arbitrary: vs)
  case Nil
  show ?case by simp
next
  case (Cons k ks)
  have "fold delete_key (k # ks) vs = fold delete_key ks (delete_key k vs)" by simp
  also have "\<dots> = filter (\<lambda>kv. fst kv \<notin> set ks) (delete_key k vs)" by (rule Cons.IH)
  also have "\<dots> = filter (\<lambda>kv. fst kv \<notin> set (k # ks)) vs"
    by (simp add: delete_key_def conj_commute)
  finally show ?case .
qed

lemma clear_values_empty: "clear_values vs = []"
  by (simp add: clear_values_def fold_delete_key filter_empty_conv)

subsection \<open>Decimal text is read back as the number it shows\<close>











subsection \<open>The conditions of the statements\<close>

lemma is_true_truth [simp]: "is_true (truth b) = b"
  by (simp add: is_true_def truth_def)

subsection \<open>The store that initialisation returns\<close>

lemma store_fields:
  assumes "NewMySQLStoreFromConnection lib db tn path maxAge kp = (Some m, None)"
  shows "stmtInsert m = insQ maxAge" and "stmtDelete m = delQ" and "stmtUpdate m = updQ"
    and "stmtSelect m = selQ" and "stmtCleanup m = cleanQ"
    and "Codecs m = CodecsFromPairs lib kp"
    and "StoreOptions m = \<lparr>Path = path, Domain_name = [], MaxAge = maxAge, Secure = False, HttpOnly = False\<rparr>"
  using assms
  by (auto simp: NewMySQLStoreFromConnection_def Prepare_def Let_def
           split: option.splits sum.splits)

lemma example_store_built:
  "NewMySQLStoreFromConnection example_codec ok_conn ''sessions'' ''/'' 3600 [''key'']
     = (Some example_store, None)"
  by (simp add: NewMySQLStoreFromConnection_def ok_conn_def Prepare_def create_fatal_def
        example_store_def example_codec_def Trim_backquote_def)

lemma Exec_cleanQ:
  "fault e = None \<Longrightarrow>
   Exec e cleanQ ps tb =
     (Inr \<lparr>lastInsertId = 0,
           rowsAffected = length (rows tb) - length (filter (\<lambda>r. \<not> expires_on r < now e) (rows tb)),
           resultRows = []\<rparr>,
      tb\<lparr>rows := filter (\<lambda>r. \<not> expires_on r < now e) (rows tb)\<rparr>)"
  by (simp add: Exec_def cleanQ_def Let_def)

lemma Exec_fault: "fault e = Some err \<Longrightarrow> Exec e q ps tb = (Inl err, tb)"
  by (simp add: Exec_def)

subsection \<open>The select statement\<close>

lemma filter_unique:
  "distinct (map f xs) \<Longrightarrow> x \<in> set xs \<Longrightarrow> filter (\<lambda>y. f y = f x) xs = [x]"
proof (induction xs)
  case Nil
  then show ?case by simp
next
  case (Cons a xs)
  show ?case
  proof (cases "a = x")
    case True
    with Cons.prems(1) have "\<forall>y\<in>set xs. f y \<noteq> f x" by (auto simp: image_iff)
    then have "filter (\<lambda>y. f y = f x) xs = []" by (simp add: filter_empty_conv)
    with True show ?thesis by simp
  next
    case False
    with Cons.prems have "x \<in> set xs" and "f a \<noteq> f x" by (auto simp: image_iff)
    with Cons show ?thesis by simp
  qed
qed

lemma QueryRow_selQ:
  "fault e = None \<Longrightarrow>
   QueryRow e selQ [StrV i] tb =
     (case filter (\<lambda>r. row_id r = sql_number i) (rows tb) of
        [] \<Rightarrow> (Inl ErrNoRows, tb)
      | r # _ \<Rightarrow> (Inr [IntV (row_id r), StrV (session_data r), truth (expires_on r < now e)], tb))"
  by (simp add: QueryRow_def Exec_def selQ_def split: list.splits)

lemma Scan_row:
  "Scan (Inr [IntV n, StrV d, truth b]) = Inr (\<lparr>sessionRow_id = Sprintf_d n, sessionRow_data = d\<rparr>, b)"
  by (simp add: Scan_def truth_def)

subsection \<open>The update statement\<close>

lemma those_rows_map_Some: "those_rows (map (\<lambda>r. Some (f r)) rs) = Some (map f rs)"
  by (induction rs) simp_all

lemma update_row_updQ:
  "update_row t [StrV blob, StrV i] (Param 0) (EQ (Col Col_id) (Param (Suc 0)))
     = (\<lambda>r. Some (updated t blob i r))"
  by (rule ext) (simp add: update_row_def updated_def)

lemma Exec_updQ:
  "fault e = None \<Longrightarrow>
   \<exists>res. Exec e updQ [StrV blob, StrV i] tb
           = (Inr res, tb\<lparr>rows := map (updated (now e) blob i) (rows tb)\<rparr>)"
  by (simp add: Exec_def updQ_def update_row_updQ those_rows_map_Some)

lemma Save_update_table:
  assumes "stmtUpdate m = updQ" and "ID s \<noteq> []" and "\<not> IsNew s"
  shows "fst (snd (snd (Save lib m e w s tb))) =
           (case EncodeMulti_Values lib (now e) (Name s) (Values s) (Codecs m) of
              Inl encErr \<Rightarrow> tb
            | Inr blob \<Rightarrow>
                (case fault e of
                   Some err \<Rightarrow> tb
                 | None \<Rightarrow> tb\<lparr>rows := map (updated (now e) blob (ID s)) (rows tb)\<rparr>))"
proof (cases "EncodeMulti_Values lib (now e) (Name s) (Values s) (Codecs m)")
  case (Inl encErr)
  with assms show ?thesis by (simp add: Save_def save_def)
next
  case (Inr blob)
  show ?thesis
  proof (cases "fault e")
    case None
    from Exec_updQ [OF None, of blob "ID s" tb] obtain res where
      "Exec e updQ [StrV blob, StrV (ID s)] tb
         = (Inr res, tb\<lparr>rows := map (updated (now e) blob (ID s)) (rows tb)\<rparr>)"
      by blast
    with assms Inr None show ?thesis
      by (simp add: Save_def save_def split: sum.splits option.splits)
  next
    case (Some err)
    with assms Inr show ?thesis
      by (simp add: Save_def save_def Exec_fault)
  qed
qed

lemma list_all2_map_right: "(\<And>x. x \<in> set xs \<Longrightarrow> P x (f x)) \<Longrightarrow> list_all2 P xs (map f xs)"
  by (induction xs) simp_all

lemma list_all2_refl_on: "(\<And>x. x \<in> set xs \<Longrightarrow> P x x) \<Longrightarrow> list_all2 P xs xs"
  by (induction xs) simp_all

subsection \<open>The insert statement\<close>



text \<open>\<open>Save\<close> of a session with an empty identifier is the insert, followed by the cookie.\<close>

lemma Save_empty_ID_inserts:
  "ID s = [] \<Longrightarrow> Save lib m e w s tb = (w1, s1, tb1, Returns None) \<Longrightarrow>
     insert_session lib m e s tb = (s1, tb1, None)"
  by (auto simp: Save_def split: prod.splits option.splits sum.splits)

subsection \<open>The states of the cleanup\<close>

lemma handshake_inv_Cleanup: "handshake_inv (Cleanup m interval0 tb)"
  by (simp add: handshake_inv_def Cleanup_def defaultInterval_def)

lemma handshake_inv_step:
  assumes "handshake_inv s" and "step m ev s = Some s'"
  shows "handshake_inv s'"
proof (cases ev)
  case Ev_NewTicker
  with assms show ?thesis by (auto simp: handshake_inv_def split: if_splits)
next
  case (Ev_tick e)
  with assms show ?thesis
    by (auto simp: handshake_inv_def split: if_splits prod.splits sum.splits)
next
  case Ev_call_StopCleanup
  with assms show ?thesis by (auto simp: handshake_inv_def split: if_splits)
next
  case Ev_quit
  with assms show ?thesis by (auto simp: handshake_inv_def split: if_splits)
next
  case Ev_done
  with assms show ?thesis by (auto simp: handshake_inv_def split: if_splits)
next
  case Ev_ticker_Stop
  with assms show ?thesis by (auto simp: handshake_inv_def split: if_splits)
qed

lemma handshake_inv_run:
  "handshake_inv s \<Longrightarrow> run m evs s = Some s' \<Longrightarrow> handshake_inv s'"
proof (induction evs arbitrary: s)
  case Nil
  then show ?case by simp
next
  case (Cons ev evs)
  from Cons.prems(2) obtain s1 where s1: "step m ev s = Some s1" and r: "run m evs s1 = Some s'"
    by (auto split: option.splits)
  from Cons.prems(1) s1 have "handshake_inv s1" by (rule handshake_inv_step)
  from Cons.IH [OF this r] show ?case .
qed

lemma past_done_step:
  assumes "past_done s" and "step m ev s = Some s'"
  shows "past_done s' \<and> execs s' = execs s \<and> swept s' = swept s \<and> logged s' = logged s"
  using assms by (cases ev) (auto simp: past_done_def split: if_splits)

lemma past_done_run:
  "past_done s \<Longrightarrow> run m evs s = Some s' \<Longrightarrow>
     past_done s' \<and> execs s' = execs s \<and> swept s' = swept s \<and> logged s' = logged s"
proof (induction evs arbitrary: s)
  case Nil
  then show ?case by simp
next
  case (Cons ev evs)
  from Cons.prems(2) obtain s1 where s1: "step m ev s = Some s1" and r: "run m evs s1 = Some s'"
    by (auto split: option.splits)
  from past_done_step [OF Cons.prems(1) s1] Cons.IH [OF _ r] show ?case by simp
qed

lemma past_done_no_tick: "past_done s \<Longrightarrow> step m (Ev_tick e) s = None"
  by (auto simp: past_done_def)

lemma returned_needs_done:
  "caller s \<noteq> StopCleanup_returned \<Longrightarrow> run m evs s = Some s' \<Longrightarrow>
     caller s' = StopCleanup_returned \<Longrightarrow> Ev_done \<in> set evs"
proof (induction evs arbitrary: s)
  case Nil
  then show ?case by simp
next
  case (Cons ev evs)
  from Cons.prems(2) obtain s1 where s1: "step m ev s = Some s1" and r: "run m evs s1 = Some s'"
    by (auto split: option.splits)
  show ?case
  proof (cases "ev = Ev_done")
    case True
    then show ?thesis by simp
  next
    case False
    with s1 Cons.prems(1) have "caller s1 \<noteq> StopCleanup_returned"
      by (cases ev) (auto split: if_splits prod.splits sum.splits)
    from Cons.IH [OF this r Cons.prems(3)] show ?thesis by simp
  qed
qed

lemma returned_needs_quit:
  "caller s = Not_called \<or> caller s = StopCleanup_at_send_quit \<Longrightarrow> run m evs s = Some s' \<Longrightarrow>
     caller s' = StopCleanup_returned \<Longrightarrow> Ev_quit \<in> set evs"
proof (induction evs arbitrary: s)
  case Nil
  then show ?case by auto
next
  case (Cons ev evs)
  from Cons.prems(2) obtain s1 where s1: "step m ev s = Some s1" and r: "run m evs s1 = Some s'"
    by (auto split: option.splits)
  show ?case
  proof (cases "ev = Ev_quit")
    case True
    then show ?thesis by simp
  next
    case False
    with s1 Cons.prems(1) have "caller s1 = Not_called \<or> caller s1 = StopCleanup_at_send_quit"
      by (cases ev) (auto split: if_splits prod.splits sum.splits)
    from Cons.IH [OF this r Cons.prems(3)] show ?thesis by simp
  qed
qed

subsection \<open>Values of the worked cases\<close>

lemma sql_number_1: "sql_number ''1'' = 1"
  by (simp add: sql_number_def nat_of_digits_def is_digit_def digit_val_def)

lemma sql_number_2: "sql_number ''2'' = 2"
  by (simp add: sql_number_def nat_of_digits_def is_digit_def digit_val_def)


lemmas statements = cTableQ_def insQ_def delQ_def updQ_def selQ_def cleanQ_def

lemma load_example_missing:
  "load example_codec example_store (at 250)
     \<lparr>ID = ''7'', Values = [], Options = Some (StoreOptions example_store), IsNew = True, Name = ''sid''\<rparr>
     example_table
   = (\<lparr>ID = ''7'', Values = [], Options = Some (StoreOptions example_store), IsNew = True, Name = ''sid''\<rparr>,
      example_table, Some ErrNoRows)"
  by (simp add: load_def QueryRow_def Exec_def at_def example_store_def selQ_def example_table_def
        Scan_def sql_number_def nat_of_digits_def is_digit_def digit_val_def)


section \<open>C1: New and a cookie that does not decode\<close>

text \<open>
  C1 says that \<open>New\<close> returns a nil error when the session cookie fails to decode. The
  code returns the error of \<open>DecodeMulti\<close> as it is: only the error of \<open>load\<close> is set
  back to nil. At the request with the cookie \<open>sid=bad\<close>, which the codec refuses,
  \<open>New\<close> returns that refusal.
\<close>

theorem New_nil_error_counterexample:
  "Cookie [(''sid'', ''bad'')] ''sid'' = Inr ''bad''
   \<and> DecodeMulti_ID example_codec (now (at 250)) ''sid'' ''bad'' (Codecs example_store)
       = Inl (OtherError ''securecookie: the value is not valid'')
   \<and> snd (snd (New example_codec example_store (at 250) [(''sid'', ''bad'')] ''sid'' example_table))
       = Some (OtherError ''securecookie: the value is not valid'')"
  by (simp add: Cookie_def example_codec_def example_store_def New_def NewSession_def at_def)

text \<open>
  C1, as amended: when the request carries the session cookie and the cookie fails to
  decode, \<open>New\<close> returns the decode error together with a fresh session (empty
  identifier, empty values, \<open>IsNew\<close> true, the options of the store) and leaves the table
  alone. When the cookie decodes and the load of the row fails, for whatever reason,
  \<open>New\<close> returns a nil error with a session that has the decoded identifier, empty
  values and \<open>IsNew\<close> true.
\<close>

theorem New_returns_cookie_decode_error:
  assumes "Cookie r name = Inr cook"
  shows "(\<forall>err. DecodeMulti_ID lib (now e) name cook (Codecs m) = Inl err \<longrightarrow>
            New lib m e r name tb =
              (\<lparr>ID = [], Values = [], Options = Some (StoreOptions m), IsNew = True, Name = name\<rparr>,
               tb, Some err))
       \<and> (\<forall>sid. DecodeMulti_ID lib (now e) name cook (Codecs m) = Inr sid \<longrightarrow>
            snd (snd (load lib m e
              \<lparr>ID = sid, Values = [], Options = Some (StoreOptions m), IsNew = True, Name = name\<rparr> tb)) \<noteq> None \<longrightarrow>
            (\<exists>tb'. New lib m e r name tb =
              (\<lparr>ID = sid, Values = [], Options = Some (StoreOptions m), IsNew = True, Name = name\<rparr>,
               tb', None)))"
  using assms
  by (auto simp: New_def NewSession_def load_def Let_def
           split: prod.splits sum.splits option.splits if_splits)

text \<open>
  The amended C1 at two requests: the cookie \<open>sid=bad\<close> does not decode, and the
  cookie \<open>sid=id:7\<close> decodes to the identifier 7, which has no row.
\<close>

theorem New_returns_cookie_decode_error_witness:
  "Cookie [(''sid'', ''bad'')] ''sid'' = Inr ''bad''
   \<and> New example_codec example_store (at 250) [(''sid'', ''bad'')] ''sid'' example_table =
       (\<lparr>ID = [], Values = [], Options = Some (StoreOptions example_store), IsNew = True, Name = ''sid''\<rparr>,
        example_table, Some (OtherError ''securecookie: the value is not valid''))
   \<and> Cookie [(''sid'', ''id:7'')] ''sid'' = Inr ''id:7''
   \<and> (\<exists>tb'. New example_codec example_store (at 250) [(''sid'', ''id:7'')] ''sid'' example_table =
       (\<lparr>ID = ''7'', Values = [], Options = Some (StoreOptions example_store), IsNew = True, Name = ''sid''\<rparr>,
        tb', None))"
proof -
  have c1: "Cookie [(''sid'', ''bad'')] ''sid'' = Inr ''bad''" by (simp add: Cookie_def)
  have d1: "DecodeMulti_ID example_codec (now (at 250)) ''sid'' ''bad'' (Codecs example_store)
              = Inl (OtherError ''securecookie: the value is not valid'')"
    by (simp add: example_codec_def example_store_def)
  have c2: "Cookie [(''sid'', ''id:7'')] ''sid'' = Inr ''id:7''" by (simp add: Cookie_def)
  have d2: "DecodeMulti_ID example_codec (now (at 250)) ''sid'' ''id:7'' (Codecs example_store) = Inr ''7''"
    by (simp add: example_codec_def example_store_def)
  have l2: "snd (snd (load example_codec example_store (at 250)
              \<lparr>ID = ''7'', Values = [], Options = Some (StoreOptions example_store), IsNew = True, Name = ''sid''\<rparr>
              example_table)) \<noteq> None"
    by (simp add: load_example_missing)
  from New_returns_cookie_decode_error [OF c1, of example_codec "at 250" example_store example_table] d1
  have a: "New example_codec example_store (at 250) [(''sid'', ''bad'')] ''sid'' example_table =
       (\<lparr>ID = [], Values = [], Options = Some (StoreOptions example_store), IsNew = True, Name = ''sid''\<rparr>,
        example_table, Some (OtherError ''securecookie: the value is not valid''))"
    by blast
  from New_returns_cookie_decode_error [OF c2, of example_codec "at 250" example_store example_table] d2 l2
  have b: "\<exists>tb'. New example_codec example_store (at 250) [(''sid'', ''id:7'')] ''sid'' example_table =
       (\<lparr>ID = ''7'', Values = [], Options = Some (StoreOptions example_store), IsNew = True, Name = ''sid''\<rparr>,
        tb', None)"
    by blast
  from a b c1 c2 show ?thesis by blast
qed

section \<open>C2: StopCleanup and the end of the goroutine\<close>

text \<open>
  C2 says that once \<open>StopCleanup\<close> has returned the goroutine has stopped its ticker
  and terminated. The goroutine sends on \<open>done\<close> first and runs its deferred
  \<open>ticker.Stop()\<close> after the \<open>return\<close> that follows: when the rendezvous on \<open>done\<close>
  is over, \<open>StopCleanup\<close> has returned, the ticker still runs and the goroutine has not
  exited.
\<close>

theorem StopCleanup_ticker_stopped_counterexample:
  "run example_store [Ev_NewTicker, Ev_call_StopCleanup, Ev_quit, Ev_done]
       (Cleanup example_store 1 example_table)
   = Some \<lparr>caller = StopCleanup_returned, task = cleanup_at_deferred_Stop, interval = 1,
           ticker = Some 1, swept = example_table, logged = [], execs = 0\<rparr>"
  by (simp add: Cleanup_def)

text \<open>
  C2, as amended: in every state that the cleanup reaches from \<open>Cleanup\<close> and in which
  \<open>StopCleanup\<close> has returned, the goroutine has received the quit signal and sent the
  done acknowledgment (both rendezvous are among the events so far), it stands at its
  deferred \<open>ticker.Stop()\<close> or has exited, and whatever happens afterwards it never
  executes the delete-expired statement again: the count of executions and the table
  stay as they are, and no tick can be taken.
\<close>

theorem StopCleanup_returns_after_acknowledgment:
  assumes "run m evs (Cleanup m interval0 tb) = Some s"
      and "caller s = StopCleanup_returned"
  shows "Ev_quit \<in> set evs \<and> Ev_done \<in> set evs
       \<and> (task s = cleanup_at_deferred_Stop \<or> task s = cleanup_exited)
       \<and> (\<forall>evs' s'. run m evs' s = Some s' \<longrightarrow>
            execs s' = execs s \<and> swept s' = swept s \<and> (\<forall>e. step m (Ev_tick e) s' = None))"
proof -
  have c0: "caller (Cleanup m interval0 tb) = Not_called" by (simp add: Cleanup_def)
  have q: "Ev_quit \<in> set evs"
    using c0 assms by (intro returned_needs_quit [of "Cleanup m interval0 tb" m evs s]) simp_all
  have d: "Ev_done \<in> set evs"
    using c0 assms by (intro returned_needs_done [of "Cleanup m interval0 tb" m evs s]) simp_all
  have "handshake_inv s"
    using handshake_inv_Cleanup assms(1) by (rule handshake_inv_run)
  with assms(2) have p: "past_done s" by (simp add: handshake_inv_def past_done_def)
  have "\<forall>evs' s'. run m evs' s = Some s' \<longrightarrow>
            execs s' = execs s \<and> swept s' = swept s \<and> (\<forall>e. step m (Ev_tick e) s' = None)"
    using past_done_run [OF p] past_done_no_tick by blast
  with q d p show ?thesis by (simp add: past_done_def)
qed

text \<open>
  The amended C2 on a run with one tick before the stop, followed afterwards by the
  deferred \<open>ticker.Stop()\<close>.
\<close>

theorem StopCleanup_returns_after_acknowledgment_witness:
  "run example_store [Ev_NewTicker, Ev_tick (at 500), Ev_call_StopCleanup, Ev_quit, Ev_done]
       (Cleanup example_store 1 example_table) = Some stopped_early
   \<and> caller stopped_early = StopCleanup_returned
   \<and> Ev_quit \<in> set [Ev_NewTicker, Ev_tick (at 500), Ev_call_StopCleanup, Ev_quit, Ev_done]
   \<and> Ev_done \<in> set [Ev_NewTicker, Ev_tick (at 500), Ev_call_StopCleanup, Ev_quit, Ev_done]
   \<and> task stopped_early = cleanup_at_deferred_Stop
   \<and> run example_store [Ev_ticker_Stop] stopped_early
        = Some (stopped_early\<lparr>task := cleanup_exited, ticker := None\<rparr>)
   \<and> execs (stopped_early\<lparr>task := cleanup_exited, ticker := None\<rparr>) = execs stopped_early
   \<and> step example_store (Ev_tick (at 2000)) (stopped_early\<lparr>task := cleanup_exited, ticker := None\<rparr>) = None"
proof -
  have h1: "run example_store [Ev_NewTicker, Ev_tick (at 500), Ev_call_StopCleanup, Ev_quit, Ev_done]
       (Cleanup example_store 1 example_table) = Some stopped_early"
    by (simp add: Cleanup_def stopped_early_def example_store_def Exec_cleanQ at_def example_table_def)
  have h2: "caller stopped_early = StopCleanup_returned" by (simp add: stopped_early_def)
  have h3: "run example_store [Ev_ticker_Stop] stopped_early
        = Some (stopped_early\<lparr>task := cleanup_exited, ticker := None\<rparr>)"
    by (simp add: stopped_early_def)
  from StopCleanup_returns_after_acknowledgment [OF h1 h2] h3
  have "execs (stopped_early\<lparr>task := cleanup_exited, ticker := None\<rparr>) = execs stopped_early
      \<and> step example_store (Ev_tick (at 2000)) (stopped_early\<lparr>task := cleanup_exited, ticker := None\<rparr>) = None"
    by blast
  with h1 h2 h3 show ?thesis by (simp add: stopped_early_def)
qed

section \<open>C3: the purge of the expired rows\<close>

text \<open>
  C3: for every table, the cleanup statement of an initialised store, when the driver
  does not fail it, leaves exactly the rows whose \<open>expires_on\<close> is not strictly before
  the server's time, each as it was and in the same order; the rows with \<open>expires_on\<close>
  strictly before that time are the ones deleted.
\<close>

theorem purge_expired_exact:
  assumes "NewMySQLStoreFromConnection lib db tn path maxAge kp = (Some m, None)"
      and "fault e = None"
  shows "\<exists>res. Exec e (stmtCleanup m) [] tb =
           (Inr res, tb\<lparr>rows := filter (\<lambda>r. \<not> expires_on r < now e) (rows tb)\<rparr>)"
  using assms by (simp add: store_fields(5) Exec_cleanQ)

text \<open>
  C3 at time 1000 on the example table: the row that expired at 200 goes, the row that
  expires at 1000 stays.
\<close>

theorem purge_expired_exact_witness:
  "NewMySQLStoreFromConnection example_codec ok_conn ''sessions'' ''/'' 3600 [''key'']
     = (Some example_store, None)
   \<and> fault (at 1000) = None
   \<and> (\<exists>res. Exec (at 1000) (stmtCleanup example_store) [] example_table =
         (Inr res,
          \<lparr>rows = [\<lparr>row_id = 2, session_data = ''ub'', created_on = 150, modified_on = 150, expires_on = 1000\<rparr>],
           auto_increment = 3\<rparr>))"
proof -
  have h2: "fault (at 1000) = None" by (simp add: at_def)
  from purge_expired_exact [OF example_store_built h2, of example_table] example_store_built h2
  show ?thesis by (simp add: example_table_def at_def)
qed

section \<open>C4: load of an expired row\<close>

text \<open>
  C4: with an initialised store and a statement that the driver does not fail, when
  the table (identifiers distinct, as the primary key has them) holds the row of the
  session's identifier and its \<open>expires_on\<close> is before the server's time, \<open>load\<close>
  fails with the error \<open>Session expired\<close> and leaves the session and the table as they
  were; the select statement itself returns the comparison \<open>expires_on < NOW()\<close> as
  its third column; on a table without a row of that identifier \<open>load\<close> fails with
  \<open>sql.ErrNoRows\<close>, which is another error.
\<close>

theorem load_expired_row_fails_distinctly:
  assumes "NewMySQLStoreFromConnection lib db tn path maxAge kp = (Some m, None)"
      and "fault e = None"
      and "distinct (map row_id (rows tb))"
      and "r \<in> set (rows tb)"
      and "row_id r = sql_number (ID s)"
      and "expires_on r < now e"
  shows "load lib m e s tb = (s, tb, Some (ErrorString ''Session expired''))
       \<and> QueryRow e (stmtSelect m) [StrV (ID s)] tb
           = (Inr [IntV (row_id r), StrV (session_data r), truth (expires_on r < now e)], tb)
       \<and> (\<forall>tb0. (\<forall>r0 \<in> set (rows tb0). row_id r0 \<noteq> sql_number (ID s)) \<longrightarrow>
             load lib m e s tb0 = (s, tb0, Some ErrNoRows))
       \<and> ErrorString ''Session expired'' \<noteq> ErrNoRows"
proof -
  have sel: "stmtSelect m = selQ" using assms(1) by (rule store_fields(4))
  have "filter (\<lambda>y. row_id y = row_id r) (rows tb) = [r]"
    using assms(3,4) by (rule filter_unique)
  then have q: "QueryRow e selQ [StrV (ID s)] tb
           = (Inr [IntV (row_id r), StrV (session_data r), truth (expires_on r < now e)], tb)"
    using assms(2,5) by (simp add: QueryRow_selQ)
  have a: "load lib m e s tb = (s, tb, Some (ErrorString ''Session expired''))"
    using assms(6) by (simp add: load_def sel q Scan_row)
  have b: "\<forall>tb0. (\<forall>r0 \<in> set (rows tb0). row_id r0 \<noteq> sql_number (ID s)) \<longrightarrow>
             load lib m e s tb0 = (s, tb0, Some ErrNoRows)"
  proof (intro allI impI)
    fix tb0 :: sql_table assume "\<forall>r0 \<in> set (rows tb0). row_id r0 \<noteq> sql_number (ID s)"
    then have "filter (\<lambda>r. row_id r = sql_number (ID s)) (rows tb0) = []"
      by (simp add: filter_empty_conv)
    then show "load lib m e s tb0 = (s, tb0, Some ErrNoRows)"
      using assms(2) by (simp add: load_def sel QueryRow_selQ Scan_def)
  qed
  from a b q sel show ?thesis by simp
qed

text \<open>
  C4 at time 250 for the identifier 1, whose row expired at 200, and for the same
  identifier on an empty table.
\<close>

theorem load_expired_row_fails_distinctly_witness:
  "NewMySQLStoreFromConnection example_codec ok_conn ''sessions'' ''/'' 3600 [''key'']
     = (Some example_store, None)
   \<and> fault (at 250) = None
   \<and> distinct (map row_id (rows example_table))
   \<and> \<lparr>row_id = 1, session_data = ''ua'', created_on = 100, modified_on = 100, expires_on = 200\<rparr>
        \<in> set (rows example_table)
   \<and> (1::int) = sql_number ''1''
   \<and> (200::int) < now (at 250)
   \<and> load example_codec example_store (at 250)
        \<lparr>ID = ''1'', Values = [], Options = None, IsNew = True, Name = ''sid''\<rparr> example_table
      = (\<lparr>ID = ''1'', Values = [], Options = None, IsNew = True, Name = ''sid''\<rparr>, example_table,
         Some (ErrorString ''Session expired''))
   \<and> load example_codec example_store (at 250)
        \<lparr>ID = ''1'', Values = [], Options = None, IsNew = True, Name = ''sid''\<rparr>
        \<lparr>rows = [], auto_increment = 1\<rparr>
      = (\<lparr>ID = ''1'', Values = [], Options = None, IsNew = True, Name = ''sid''\<rparr>,
         \<lparr>rows = [], auto_increment = 1\<rparr>, Some ErrNoRows)"
proof -
  let ?s = "\<lparr>ID = ''1'', Values = [], Options = None, IsNew = True, Name = ''sid''\<rparr> :: (char, char) session"
  let ?r = "\<lparr>row_id = 1, session_data = ''ua'', created_on = 100, modified_on = 100, expires_on = 200\<rparr>"
  have h2: "fault (at 250) = None" by (simp add: at_def)
  have h3: "distinct (map row_id (rows example_table))" by (simp add: example_table_def)
  have h4: "?r \<in> set (rows example_table)" by (simp add: example_table_def)
  have h5: "row_id ?r = sql_number (ID ?s)" by (simp add: sql_number_1)
  have h6: "expires_on ?r < now (at 250)" by (simp add: at_def)
  have e: "\<forall>r0 \<in> set (rows \<lparr>rows = [], auto_increment = 1\<rparr>). row_id r0 \<noteq> sql_number (ID ?s)" by simp
  from load_expired_row_fails_distinctly [OF example_store_built h2 h3 h4 h5 h6] e
       example_store_built h2 h3 h4 h5 h6
  show ?thesis by simp
qed

section \<open>C5: failures of the initialisation\<close>

text \<open>
  C5: \<open>NewMySQLStoreFromConnection\<close> returns a store when the table creation passes
  (it succeeds, or fails with error 1142) and the five statements are prepared; a
  creation error that is not error 1142 of the driver is returned with a nil store;
  when the creation passes, the error of the first statement (insert, delete, update,
  select, cleanup, in this order) that fails to prepare is returned with a nil store;
  and the store is nil exactly when the error is not.
\<close>

theorem NewMySQLStoreFromConnection_failures:
  "(create_passes db \<longrightarrow>
      prepare_fault db (insQ maxAge) = None \<longrightarrow> prepare_fault db delQ = None \<longrightarrow>
      prepare_fault db updQ = None \<longrightarrow> prepare_fault db selQ = None \<longrightarrow>
      prepare_fault db cleanQ = None \<longrightarrow>
      (\<exists>m. NewMySQLStoreFromConnection lib db tableName path maxAge keyPairs = (Some m, None)))
   \<and> (\<forall>err. exec_fault db cTableQ = Some err \<longrightarrow> (\<forall>msg. err \<noteq> MySQLError 1142 msg) \<longrightarrow>
        NewMySQLStoreFromConnection lib db tableName path maxAge keyPairs = (None, Some err))
   \<and> (\<forall>err. create_passes db \<longrightarrow> prepare_fault db (insQ maxAge) = Some err \<longrightarrow>
        NewMySQLStoreFromConnection lib db tableName path maxAge keyPairs = (None, Some err))
   \<and> (\<forall>err. create_passes db \<longrightarrow> prepare_fault db (insQ maxAge) = None \<longrightarrow>
        prepare_fault db delQ = Some err \<longrightarrow>
        NewMySQLStoreFromConnection lib db tableName path maxAge keyPairs = (None, Some err))
   \<and> (\<forall>err. create_passes db \<longrightarrow> prepare_fault db (insQ maxAge) = None \<longrightarrow>
        prepare_fault db delQ = None \<longrightarrow> prepare_fault db updQ = Some err \<longrightarrow>
        NewMySQLStoreFromConnection lib db tableName path maxAge keyPairs = (None, Some err))
   \<and> (\<forall>err. create_passes db \<longrightarrow> prepare_fault db (insQ maxAge) = None \<longrightarrow>
        prepare_fault db delQ = None \<longrightarrow> prepare_fault db updQ = None \<longrightarrow>
        prepare_fault db selQ = Some err \<longrightarrow>
        NewMySQLStoreFromConnection lib db tableName path maxAge keyPairs = (None, Some err))
   \<and> (\<forall>err. create_passes db \<longrightarrow> prepare_fault db (insQ maxAge) = None \<longrightarrow>
        prepare_fault db delQ = None \<longrightarrow> prepare_fault db updQ = None \<longrightarrow>
        prepare_fault db selQ = None \<longrightarrow> prepare_fault db cleanQ = Some err \<longrightarrow>
        NewMySQLStoreFromConnection lib db tableName path maxAge keyPairs = (None, Some err))
   \<and> ((fst (NewMySQLStoreFromConnection lib db tableName path maxAge keyPairs) = None)
        = (snd (NewMySQLStoreFromConnection lib db tableName path maxAge keyPairs) \<noteq> None))"
proof -
  have f: "\<And>err. exec_fault db cTableQ = Some err \<Longrightarrow> (\<forall>msg. err \<noteq> MySQLError 1142 msg) \<Longrightarrow>
             create_fatal (exec_fault db cTableQ) = Some err"
    by (auto simp: create_fatal_def split: error.splits)
  have p: "create_passes db \<Longrightarrow> create_fatal (exec_fault db cTableQ) = None"
    by (auto simp: create_passes_def create_fatal_def split: option.splits error.splits)
  show ?thesis
    using f p
    by (auto simp: NewMySQLStoreFromConnection_def Prepare_def Let_def
             split: option.splits sum.splits)
qed

text \<open>
  C5 on a connection that denies the creation with error 1142, on one that refuses it
  with error 1044, and on five connections that fail to prepare one statement each.
\<close>

theorem NewMySQLStoreFromConnection_failures_witness:
  "create_passes denied_conn
   \<and> (\<exists>m. NewMySQLStoreFromConnection example_codec denied_conn ''sessions'' ''/'' 3600 [''key'']
             = (Some m, None))
   \<and> NewMySQLStoreFromConnection example_codec refused_conn ''sessions'' ''/'' 3600 [''key'']
        = (None, Some (MySQLError 1044 ''Access denied''))
   \<and> NewMySQLStoreFromConnection example_codec (failing_prepare (insQ 3600) (OtherError ''bad connection''))
          ''sessions'' ''/'' 3600 [''key'']
        = (None, Some (OtherError ''bad connection''))
   \<and> NewMySQLStoreFromConnection example_codec (failing_prepare delQ (OtherError ''bad connection''))
          ''sessions'' ''/'' 3600 [''key'']
        = (None, Some (OtherError ''bad connection''))
   \<and> NewMySQLStoreFromConnection example_codec (failing_prepare updQ (OtherError ''bad connection''))
          ''sessions'' ''/'' 3600 [''key'']
        = (None, Some (OtherError ''bad connection''))
   \<and> NewMySQLStoreFromConnection example_codec (failing_prepare selQ (OtherError ''bad connection''))
          ''sessions'' ''/'' 3600 [''key'']
        = (None, Some (OtherError ''bad connection''))
   \<and> NewMySQLStoreFromConnection example_codec (failing_prepare cleanQ (OtherError ''bad connection''))
          ''sessions'' ''/'' 3600 [''key'']
        = (None, Some (OtherError ''bad connection''))"
proof -
  note t = NewMySQLStoreFromConnection_failures
             [where lib = example_codec and tableName = "''sessions''" and path = "''/''"
                and maxAge = 3600 and keyPairs = "[''key'']"]
  have p: "create_passes denied_conn" by (simp add: create_passes_def denied_conn_def)
  have a: "\<exists>m. NewMySQLStoreFromConnection example_codec denied_conn ''sessions'' ''/'' 3600 [''key'']
             = (Some m, None)"
    using t [where db = denied_conn] p by (simp add: denied_conn_def)
  have b: "NewMySQLStoreFromConnection example_codec refused_conn ''sessions'' ''/'' 3600 [''key'']
        = (None, Some (MySQLError 1044 ''Access denied''))"
    using t [where db = refused_conn] by (simp add: refused_conn_def)
  have q: "\<And>q. create_passes (failing_prepare q (OtherError ''bad connection''))"
    by (simp add: create_passes_def failing_prepare_def)
  have c1: "NewMySQLStoreFromConnection example_codec (failing_prepare (insQ 3600) (OtherError ''bad connection''))
          ''sessions'' ''/'' 3600 [''key''] = (None, Some (OtherError ''bad connection''))"
    using t [where db = "failing_prepare (insQ 3600) (OtherError ''bad connection'')"] q
    by (simp add: failing_prepare_def statements)
  have c2: "NewMySQLStoreFromConnection example_codec (failing_prepare delQ (OtherError ''bad connection''))
          ''sessions'' ''/'' 3600 [''key''] = (None, Some (OtherError ''bad connection''))"
    using t [where db = "failing_prepare delQ (OtherError ''bad connection'')"] q
    by (simp add: failing_prepare_def statements)
  have c3: "NewMySQLStoreFromConnection example_codec (failing_prepare updQ (OtherError ''bad connection''))
          ''sessions'' ''/'' 3600 [''key''] = (None, Some (OtherError ''bad connection''))"
    using t [where db = "failing_prepare updQ (OtherError ''bad connection'')"] q
    by (simp add: failing_prepare_def statements)
  have c4: "NewMySQLStoreFromConnection example_codec (failing_prepare selQ (OtherError ''bad connection''))
          ''sessions'' ''/'' 3600 [''key''] = (None, Some (OtherError ''bad connection''))"
    using t [where db = "failing_prepare selQ (OtherError ''bad connection'')"] q
    by (simp add: failing_prepare_def statements)
  have c5: "NewMySQLStoreFromConnection example_codec (failing_prepare cleanQ (OtherError ''bad connection''))
          ''sessions'' ''/'' 3600 [''key''] = (None, Some (OtherError ''bad connection''))"
    using t [where db = "failing_prepare cleanQ (OtherError ''bad connection'')"] q
    by (simp add: failing_prepare_def statements)
  from p a b c1 c2 c3 c4 c5 show ?thesis by blast
qed

section \<open>C6: a failed purge inside the loop\<close>

text \<open>
  C6: in every state that the cleanup reaches from \<open>Cleanup\<close> with the goroutine at
  its \<open>select\<close>, a tick whose execution of the cleanup statement returns an error can
  be taken; after it the goroutine is at the \<open>select\<close> again with its ticker as before,
  the caller stands where it stood, the error has been logged and one execution has been
  counted; and the next tick, in whatever environment, can be taken and executes the
  statement once more.
\<close>

theorem cleanup_continues_after_failed_purge:
  assumes "run m evs (Cleanup m interval0 tb) = Some s"
      and "task s = cleanup_at_select"
      and "fst (Exec e (stmtCleanup m) [] (swept s)) = Inl err"
  shows "\<exists>s'. step m (Ev_tick e) s = Some s'
            \<and> task s' = cleanup_at_select \<and> ticker s' = ticker s \<and> caller s' = caller s
            \<and> logged s' = logged s @ [(''mysqlstore: unable to delete expired sessions: %v'', err)]
            \<and> execs s' = Suc (execs s)
            \<and> (\<forall>e'. \<exists>s''. step m (Ev_tick e') s' = Some s''
                   \<and> execs s'' = Suc (Suc (execs s))
                   \<and> swept s'' = snd (Exec e' (stmtCleanup m) [] (swept s')))"
proof -
  have "handshake_inv s"
    using handshake_inv_Cleanup assms(1) by (rule handshake_inv_run)
  with assms(2) have t: "ticker s \<noteq> None" by (simp add: handshake_inv_def)
  obtain tb' where x: "Exec e (stmtCleanup m) [] (swept s) = (Inl err, tb')"
    using assms(3) by (cases "Exec e (stmtCleanup m) [] (swept s)") simp
  let ?s' = "s\<lparr>swept := tb',
                logged := logged s @ [(''mysqlstore: unable to delete expired sessions: %v'', err)],
                execs := Suc (execs s)\<rparr>"
  have a: "step m (Ev_tick e) s = Some ?s'" using assms(2) t x by simp
  have b: "\<forall>e'. \<exists>s''. step m (Ev_tick e') ?s' = Some s''
                   \<and> execs s'' = Suc (Suc (execs s))
                   \<and> swept s'' = snd (Exec e' (stmtCleanup m) [] (swept ?s'))"
    using assms(2) t by (auto split: prod.splits sum.splits)
  have c: "task ?s' = cleanup_at_select \<and> ticker ?s' = ticker s \<and> caller ?s' = caller s
            \<and> logged ?s' = logged s @ [(''mysqlstore: unable to delete expired sessions: %v'', err)]
            \<and> execs ?s' = Suc (execs s)"
    using assms(2) by simp
  from a b c show ?thesis by blast
qed

text \<open>
  C6 on the example: the first tick, at time 500, meets a lost connection; the second,
  at time 800, runs the statement again.
\<close>

theorem cleanup_continues_after_failed_purge_witness:
  "run example_store [Ev_NewTicker] (Cleanup example_store 1 example_table) = Some at_select
   \<and> task at_select = cleanup_at_select
   \<and> fst (Exec (failing_at 500 (OtherError ''connection lost'')) (stmtCleanup example_store) []
             (swept at_select)) = Inl (OtherError ''connection lost'')
   \<and> (\<exists>s'. step example_store (Ev_tick (failing_at 500 (OtherError ''connection lost''))) at_select = Some s'
          \<and> task s' = cleanup_at_select
          \<and> logged s' = [(''mysqlstore: unable to delete expired sessions: %v'', OtherError ''connection lost'')]
          \<and> execs s' = 1
          \<and> (\<exists>s''. step example_store (Ev_tick (at 800)) s' = Some s'' \<and> execs s'' = 2))"
proof -
  have h1: "run example_store [Ev_NewTicker] (Cleanup example_store 1 example_table) = Some at_select"
    by (simp add: Cleanup_def at_select_def)
  have h2: "task at_select = cleanup_at_select" by (simp add: at_select_def)
  have h3: "fst (Exec (failing_at 500 (OtherError ''connection lost'')) (stmtCleanup example_store) []
             (swept at_select)) = Inl (OtherError ''connection lost'')"
    by (simp add: Exec_def failing_at_def)
  from cleanup_continues_after_failed_purge [OF h1 h2 h3]
  obtain s' where a: "step example_store (Ev_tick (failing_at 500 (OtherError ''connection lost''))) at_select = Some s'"
    and b: "task s' = cleanup_at_select"
    and c: "logged s' = logged at_select @ [(''mysqlstore: unable to delete expired sessions: %v'', OtherError ''connection lost'')]"
    and d: "execs s' = Suc (execs at_select)"
    and n: "\<forall>e'. \<exists>s''. step example_store (Ev_tick e') s' = Some s'' \<and> execs s'' = Suc (Suc (execs at_select))
                   \<and> swept s'' = snd (Exec e' (stmtCleanup example_store) [] (swept s'))"
    by blast
  from n obtain s'' where f: "step example_store (Ev_tick (at 800)) s' = Some s''"
    and g: "execs s'' = Suc (Suc (execs at_select))"
    by blast
  have c': "logged s' = [(''mysqlstore: unable to delete expired sessions: %v'', OtherError ''connection lost'')]"
    using c by (simp add: at_select_def)
  have d': "execs s' = 1" using d by (simp add: at_select_def)
  have g': "execs s'' = 2" using g by (simp add: at_select_def)
  from a b c' d' f g'
  have "\<exists>s'. step example_store (Ev_tick (failing_at 500 (OtherError ''connection lost''))) at_select = Some s'
          \<and> task s' = cleanup_at_select
          \<and> logged s' = [(''mysqlstore: unable to delete expired sessions: %v'', OtherError ''connection lost'')]
          \<and> execs s' = 1
          \<and> (\<exists>s''. step example_store (Ev_tick (at 800)) s' = Some s'' \<and> execs s'' = 2)"
    by blast
  with h1 h2 h3 show ?thesis by blast
qed

section \<open>C7: insert, then load\<close>



section \<open>C8: the default interval\<close>

text \<open>
  C8: for every interval that is zero or negative, \<open>Cleanup\<close> starts the cleanup in
  the state in which it starts it for the default interval of five minutes, so every
  sequence of events has the same outcome from both; and the ticker that the goroutine
  makes has the default interval as its period.
\<close>

theorem Cleanup_nonpositive_interval_is_default:
  assumes "interval0 \<le> 0"
  shows "Cleanup m interval0 tb = Cleanup m defaultInterval tb
       \<and> run m evs (Cleanup m interval0 tb) = run m evs (Cleanup m defaultInterval tb)
       \<and> step m Ev_NewTicker (Cleanup m interval0 tb)
           = Some ((Cleanup m interval0 tb)\<lparr>task := cleanup_at_select, ticker := Some defaultInterval\<rparr>)"
proof -
  have eq: "Cleanup m interval0 tb = Cleanup m defaultInterval tb"
    using assms by (simp add: Cleanup_def defaultInterval_def)
  have "step m Ev_NewTicker (Cleanup m interval0 tb)
           = Some ((Cleanup m interval0 tb)\<lparr>task := cleanup_at_select, ticker := Some defaultInterval\<rparr>)"
    using assms by (simp add: Cleanup_def defaultInterval_def)
  with eq show ?thesis by simp
qed

text \<open>C8 at the interval \<open>-3\<close>: the period of the ticker is 300000000000 nanoseconds.\<close>

theorem Cleanup_nonpositive_interval_is_default_witness:
  "(- 3 :: int) \<le> 0
   \<and> Cleanup example_store (- 3) example_table = Cleanup example_store defaultInterval example_table
   \<and> run example_store [Ev_NewTicker, Ev_tick (at 500)] (Cleanup example_store (- 3) example_table)
       = run example_store [Ev_NewTicker, Ev_tick (at 500)] (Cleanup example_store defaultInterval example_table)
   \<and> step example_store Ev_NewTicker (Cleanup example_store (- 3) example_table)
       = Some ((Cleanup example_store (- 3) example_table)\<lparr>task := cleanup_at_select, ticker := Some 300000000000\<rparr>)"
proof -
  have h: "(- 3 :: int) \<le> 0" by simp
  from Cleanup_nonpositive_interval_is_default
         [OF h, of example_store example_table "[Ev_NewTicker, Ev_tick (at 500)]"]
  show ?thesis by (simp add: defaultInterval_def Cleanup_def)
qed

section \<open>C9: what an update leaves alone\<close>

text \<open>
  C9: let an initialised store save a session that has an identifier and is not new.
  Whatever the outcome of \<open>Save\<close>, the table afterwards has the same rows in the same
  order with the same \<open>id\<close>, \<open>created_on\<close> and \<open>expires_on\<close>, every row whose \<open>id\<close> is
  not the number of the session's identifier is as it was, and the auto-increment
  counter is as it was; and when the values encode to a blob and the driver does not
  fail the statement, the row of the identifier holds that blob.
\<close>

theorem update_overwrites_only_session_data:
  assumes "NewMySQLStoreFromConnection lib db tn path maxAge kp = (Some m, None)"
      and "ID s \<noteq> []" and "\<not> IsNew s"
  shows "list_all2 (\<lambda>r r'. row_id r' = row_id r \<and> created_on r' = created_on r
                          \<and> expires_on r' = expires_on r
                          \<and> (row_id r \<noteq> sql_number (ID s) \<longrightarrow> r' = r))
           (rows tb) (rows (fst (snd (snd (Save lib m e w s tb)))))
       \<and> auto_increment (fst (snd (snd (Save lib m e w s tb)))) = auto_increment tb
       \<and> (\<forall>blob. fault e = None \<longrightarrow>
             EncodeMulti_Values lib (now e) (Name s) (Values s) (Codecs m) = Inr blob \<longrightarrow>
             list_all2 (\<lambda>r r'. row_id r = sql_number (ID s) \<longrightarrow> session_data r' = blob)
               (rows tb) (rows (fst (snd (snd (Save lib m e w s tb))))))"
proof -
  have upd: "stmtUpdate m = updQ" using assms(1) by (rule store_fields(3))
  note t = Save_update_table [OF upd assms(2,3), of lib e w tb]
  have frame: "\<And>blob r. row_id (updated (now e) blob (ID s) r) = row_id r
                 \<and> created_on (updated (now e) blob (ID s) r) = created_on r
                 \<and> expires_on (updated (now e) blob (ID s) r) = expires_on r
                 \<and> (row_id r \<noteq> sql_number (ID s) \<longrightarrow> updated (now e) blob (ID s) r = r)"
    by (simp add: updated_def)
  have a: "list_all2 (\<lambda>r r'. row_id r' = row_id r \<and> created_on r' = created_on r
                          \<and> expires_on r' = expires_on r
                          \<and> (row_id r \<noteq> sql_number (ID s) \<longrightarrow> r' = r))
           (rows tb) (rows (fst (snd (snd (Save lib m e w s tb)))))"
    unfolding t
    by (auto split: sum.splits option.splits intro!: list_all2_map_right list_all2_refl_on simp: frame)
  have b: "auto_increment (fst (snd (snd (Save lib m e w s tb)))) = auto_increment tb"
    unfolding t by (simp split: sum.splits option.splits)
  have c: "\<forall>blob. fault e = None \<longrightarrow>
             EncodeMulti_Values lib (now e) (Name s) (Values s) (Codecs m) = Inr blob \<longrightarrow>
             list_all2 (\<lambda>r r'. row_id r = sql_number (ID s) \<longrightarrow> session_data r' = blob)
               (rows tb) (rows (fst (snd (snd (Save lib m e w s tb)))))"
    unfolding t
    by (auto intro!: list_all2_map_right simp: updated_def)
  from a b c show ?thesis by blast
qed

text \<open>
  C9 on the example: the session of identifier 2 is saved at time 300 with new values;
  row 1 is as it was, row 2 has the new blob and a new \<open>modified_on\<close>.
\<close>

theorem update_overwrites_only_session_data_witness:
  "NewMySQLStoreFromConnection example_codec ok_conn ''sessions'' ''/'' 3600 [''key'']
     = (Some example_store, None)
   \<and> ID \<lparr>ID = ''2'', Values = [(CHR ''x'', CHR ''y'')], Options = None, IsNew = False, Name = ''sid''\<rparr> \<noteq> []
   \<and> \<not> IsNew \<lparr>ID = ''2'', Values = [(CHR ''x'', CHR ''y'')], Options = None, IsNew = False, Name = ''sid''\<rparr>
   \<and> fst (snd (snd (Save example_codec example_store (at 300) []
        \<lparr>ID = ''2'', Values = [(CHR ''x'', CHR ''y'')], Options = None, IsNew = False, Name = ''sid''\<rparr>
        example_table))) = updated_table
   \<and> list_all2 (\<lambda>r r'. row_id r' = row_id r \<and> created_on r' = created_on r
                          \<and> expires_on r' = expires_on r
                          \<and> (row_id r \<noteq> sql_number ''2'' \<longrightarrow> r' = r))
        (rows example_table) (rows updated_table)
   \<and> auto_increment updated_table = auto_increment example_table
   \<and> list_all2 (\<lambda>r r'. row_id r = sql_number ''2'' \<longrightarrow> session_data r' = ''xy'')
        (rows example_table) (rows updated_table)"
proof -
  let ?s = "\<lparr>ID = ''2'', Values = [(CHR ''x'', CHR ''y'')], Options = None, IsNew = False, Name = ''sid''\<rparr>"
  have h2: "ID ?s \<noteq> []" by simp
  have h3: "\<not> IsNew ?s" by simp
  have f: "fault (at 300) = None" by (simp add: at_def)
  have enc: "EncodeMulti_Values example_codec (now (at 300)) (Name ?s) (Values ?s) (Codecs example_store) = Inr ''xy''"
    by (simp add: example_codec_def example_store_def)
  have upd: "stmtUpdate example_store = updQ" by (simp add: example_store_def)
  have tb: "fst (snd (snd (Save example_codec example_store (at 300) [] ?s example_table))) = updated_table"
    unfolding Save_update_table [OF upd h2 h3]
    by (simp add: example_codec_def example_store_def at_def
          example_table_def updated_table_def updated_def sql_number_2)
  from update_overwrites_only_session_data
         [OF example_store_built h2 h3, where tb = example_table and e = "at 300" and w = "[]"] f enc
  have "list_all2 (\<lambda>r r'. row_id r' = row_id r \<and> created_on r' = created_on r
                          \<and> expires_on r' = expires_on r
                          \<and> (row_id r \<noteq> sql_number ''2'' \<longrightarrow> r' = r))
          (rows example_table) (rows updated_table)
      \<and> auto_increment updated_table = auto_increment example_table
      \<and> list_all2 (\<lambda>r r'. row_id r = sql_number ''2'' \<longrightarrow> session_data r' = ''xy'')
          (rows example_table) (rows updated_table)"
    unfolding tb by simp
  with example_store_built h2 h3 tb show ?thesis by blast
qed

section \<open>C10: Delete and a failing database\<close>

text \<open>
  C10: for every session whose \<open>Options\<close> pointer is set, \<open>Delete\<close> appends to the
  response the cookie of the session's name with an empty value and \<open>MaxAge = -1\<close>, and
  empties the values of the session, whatever the delete statement does afterwards;
  when the driver fails the statement, \<open>Delete\<close> returns that error, the table is as it
  was, and the cookie has been written and the values emptied all the same.
\<close>

theorem Delete_side_effects_precede_database_error:
  assumes "Options s = Some opts"
  shows "fst (Delete m e w s tb) =
           w @ [\<lparr>Cookie_Name = Name s, Cookie_Value = [], Cookie_Path = Path opts,
                  Cookie_Domain = Domain_name opts, Cookie_MaxAge = - 1,
                  Cookie_Secure = Secure opts, Cookie_HttpOnly = HttpOnly opts\<rparr>]
       \<and> fst (snd (Delete m e w s tb)) = s\<lparr>Values := []\<rparr>
       \<and> (\<forall>delErr. fault e = Some delErr \<longrightarrow>
            Delete m e w s tb =
              (w @ [\<lparr>Cookie_Name = Name s, Cookie_Value = [], Cookie_Path = Path opts,
                     Cookie_Domain = Domain_name opts, Cookie_MaxAge = - 1,
                     Cookie_Secure = Secure opts, Cookie_HttpOnly = HttpOnly opts\<rparr>],
               s\<lparr>Values := []\<rparr>, tb, Returns (Some delErr)))"
  using assms
  by (simp add: Delete_def NewCookie_def SetCookie_def clear_values_empty Let_def Exec_def
           split: prod.splits sum.splits option.splits)

text \<open>C10 on the example, with a connection lost at the delete statement.\<close>

theorem Delete_side_effects_precede_database_error_witness:
  "Options \<lparr>ID = ''1'', Values = [(CHR ''u'', CHR ''a'')], Options = Some (StoreOptions example_store),
            IsNew = False, Name = ''sid''\<rparr> = Some (StoreOptions example_store)
   \<and> fault (failing_at 300 (OtherError ''connection lost'')) = Some (OtherError ''connection lost'')
   \<and> Delete example_store (failing_at 300 (OtherError ''connection lost'')) []
        \<lparr>ID = ''1'', Values = [(CHR ''u'', CHR ''a'')], Options = Some (StoreOptions example_store),
         IsNew = False, Name = ''sid''\<rparr> example_table
      = ([\<lparr>Cookie_Name = ''sid'', Cookie_Value = [], Cookie_Path = ''/'', Cookie_Domain = [],
           Cookie_MaxAge = - 1, Cookie_Secure = False, Cookie_HttpOnly = False\<rparr>],
         \<lparr>ID = ''1'', Values = [], Options = Some (StoreOptions example_store),
          IsNew = False, Name = ''sid''\<rparr>,
         example_table, Returns (Some (OtherError ''connection lost'')))"
proof -
  let ?s = "\<lparr>ID = ''1'', Values = [(CHR ''u'', CHR ''a'')], Options = Some (StoreOptions example_store),
            IsNew = False, Name = ''sid''\<rparr>"
  have h: "Options ?s = Some (StoreOptions example_store)" by simp
  have f: "fault (failing_at 300 (OtherError ''connection lost'')) = Some (OtherError ''connection lost'')"
    by (simp add: failing_at_def)
  from Delete_side_effects_precede_database_error
         [OF h, of example_store "failing_at 300 (OtherError ''connection lost'')" "[]" example_table] f
  show ?thesis by (simp add: example_store_def)
qed

end
